theory Spec2Isabelle
  imports Complex_Main "HOL-Library.Sublist"
begin

section \<open>Python strings\<close>

text \<open>
  A Python \<^verbatim>\<open>str\<close> is a sequence of Unicode code points. The sources contain
  characters beyond one byte (the emoji of the labels), and \<^verbatim>\<open>str.strip\<close> removes
  Unicode whitespace, so a string is modelled as the list of its code points.
  \<open>asc\<close> reads an ASCII literal.
\<close>

type_synonym pystr = "nat list"

definition asc :: "string \<Rightarrow> pystr" where
  "asc s = map of_char s"

text \<open>\<^verbatim>\<open>str.isspace\<close> for one code point: the whitespace characters of CPython.\<close>

definition isspace :: "nat \<Rightarrow> bool" where
  "isspace c \<longleftrightarrow>
     (0x09 \<le> c \<and> c \<le> 0x0D) \<or> (0x1C \<le> c \<and> c \<le> 0x20) \<or> c = 0x85 \<or> c = 0xA0 \<or>
     c = 0x1680 \<or> (0x2000 \<le> c \<and> c \<le> 0x200A) \<or> c = 0x2028 \<or> c = 0x2029 \<or>
     c = 0x202F \<or> c = 0x205F \<or> c = 0x3000"

text \<open>\<^verbatim>\<open>s.strip()\<close>: leading and trailing whitespace removed.\<close>

definition strip :: "pystr \<Rightarrow> pystr" where
  "strip s = rev (dropWhile isspace (rev (dropWhile isspace s)))"


section \<open>src/prompts.py\<close>

definition QA_SYSTEM_PROMPT :: pystr where
  "QA_SYSTEM_PROMPT = asc
    (''You are a helpful document assistant specializing in answering questions about financial and healthcare documents.\<newline>'' @
     ''\<newline>'' @
     ''Your capabilities:\<newline>'' @
     ''- Answer specific questions about document content\<newline>'' @
     ''- Cite sources accurately\<newline>'' @
     ''- Provide clear, concise answers\<newline>'' @
     ''- Use available tools to search and read documents\<newline>'' @
     ''\<newline>'' @
     ''Guidelines:\<newline>'' @
     ''1. Always search for relevant documents before answering\<newline>'' @
     ''2. Cite specific document IDs when referencing information\<newline>'' @
     ''3. If information is not found, say so clearly\<newline>'' @
     ''4. Be precise with numbers and dates\<newline>'' @
     ''5. Maintain professional tone\<newline>'' @
     ''\<newline>'')"

definition SUMMARIZATION_SYSTEM_PROMPT :: pystr where
  "SUMMARIZATION_SYSTEM_PROMPT = asc
    (''You are an expert document summarizer specializing in financial and healthcare documents.\<newline>'' @
     ''\<newline>'' @
     ''Your approach:\<newline>'' @
     ''- Extract key information and main points\<newline>'' @
     ''- Organize summaries logically\<newline>'' @
     ''- Highlight important numbers, dates, and parties\<newline>'' @
     ''- Keep summaries concise but comprehensive\<newline>'' @
     ''\<newline>'' @
     ''Guidelines:\<newline>'' @
     ''1. First search for and read the relevant documents\<newline>'' @
     ''2. Structure summaries with clear sections\<newline>'' @
     ''3. Include document IDs in your summary\<newline>'' @
     ''4. Focus on actionable information\<newline>'')"

definition CALCULATION_SYSTEM_PROMPT :: pystr where
  "CALCULATION_SYSTEM_PROMPT = asc
    (''You are a precise calculation assistant specializing in financial and healthcare document analysis.\<newline>'' @
     ''\<newline>'' @
     ''Your capabilities:\<newline>'' @
     ''- Retrieve relevant documents using the document reader tool\<newline>'' @
     ''- Extract numerical data from documents\<newline>'' @
     ''- Perform accurate mathematical calculations using the calculator tool\<newline>'' @
     ''- Provide clear explanations of calculations\<newline>'' @
     ''\<newline>'' @
     ''Guidelines:\<newline>'' @
     ''1. First, determine which document(s) need to be retrieved and use the document reader tool to access them\<newline>'' @
     ''2. Extract the relevant numbers from the document content\<newline>'' @
     ''3. Determine the mathematical expression needed based on the user's request\<newline>'' @
     ''4. ALWAYS use the calculator tool for ALL calculations, no matter how simple\<newline>'' @
     ''5. Never perform mental math - always use the calculator tool\<newline>'' @
     ''6. Provide step-by-step explanations of your calculations\<newline>'' @
     ''7. Include the mathematical expression and the result in your response\<newline>'' @
     ''8. Cite the document IDs where you found the numbers\<newline>'' @
     ''\<newline>'' @
     ''Remember: Use the calculator tool for every calculation, even basic addition or subtraction.'')"

text \<open>
  A \<^verbatim>\<open>ChatPromptTemplate\<close> built by \<^verbatim>\<open>from_messages\<close> is the list of its message
  templates; each template keeps the text it was built from.
\<close>

datatype message_template =
    SystemMessagePromptTemplate pystr
  | MessagesPlaceholder pystr
  | HumanMessagePromptTemplate pystr

type_synonym ChatPromptTemplate = "message_template list"

definition get_chat_prompt_template :: "pystr \<Rightarrow> ChatPromptTemplate" where
  "get_chat_prompt_template intent_type =
     (let system_prompt =
            (if intent_type = asc ''qa'' then QA_SYSTEM_PROMPT
             else if intent_type = asc ''summarization'' then SUMMARIZATION_SYSTEM_PROMPT
             else if intent_type = asc ''calculation'' then CALCULATION_SYSTEM_PROMPT
             else QA_SYSTEM_PROMPT)
      in [SystemMessagePromptTemplate system_prompt,
          MessagesPlaceholder (asc ''chat_history''),
          HumanMessagePromptTemplate (asc ''{input}'')])"

section \<open>src/app\_textual.py: values exchanged with the backend\<close>

text \<open>
  An exception is an instance of \<^verbatim>\<open>Exception\<close>, known to the program by \<^verbatim>\<open>str(e)\<close>.
  \<open>KeyError\<close> is what a missing dictionary key raises, \<open>AttributeError_NoneType\<close>
  what an attribute access on \<^verbatim>\<open>None\<close> raises.
\<close>

datatype exn = Exception pystr

fun str_exn :: "exn \<Rightarrow> pystr" where
  "str_exn (Exception description) = description"

definition KeyError :: "pystr \<Rightarrow> exn" where
  "KeyError key = Exception ([39] @ key @ [39])"

definition AttributeError_NoneType :: "pystr \<Rightarrow> exn" where
  "AttributeError_NoneType name =
     Exception ([39] @ asc ''NoneType'' @ [39] @ asc '' object has no attribute '' @
                [39] @ name @ [39])"

text \<open>
  A method either returns, or raises with the state as it was when the exception left it.
\<close>

datatype 's outcome = Normal 's | Raised exn 's

fun state_of :: "'s outcome \<Rightarrow> 's" where
  "state_of (Normal s) = s"
| "state_of (Raised e s) = s"

text \<open>
  The dictionary returned by \<^verbatim>\<open>process_message\<close>. Every key may be absent (\<open>None\<close>);
  the values have the types of the backend's interface. \<^verbatim>\<open>response\<close> may be present
  with the value \<^verbatim>\<open>None\<close> (\<open>Some None\<close>). For \<^verbatim>\<open>intent\<close> the program only calls
  \<^verbatim>\<open>result.get("intent")\<close>, which gives \<^verbatim>\<open>None\<close> for an absent key and for the
  value \<^verbatim>\<open>None\<close> alike: both are \<open>None\<close> here. An intent is a dictionary with string
  values, kept in insertion order.
\<close>

type_synonym intent_dict = "(pystr \<times> pystr) list"

record result =
  success :: "bool option"
  response :: "pystr option option"
  intent :: "intent_dict option"
  tools_used :: "pystr list option"
  sources :: "pystr list option"
  error :: "pystr option"

text \<open>
  A document of \<^verbatim>\<open>retriever.documents\<close>. Of the metadata mapping the program reads the
  key \<^verbatim>\<open>total\<close> only, a number: the mapping is typed by its numeric entries, each
  the exact value of a finite float.
\<close>

record document =
  title :: pystr
  doc_type :: pystr
  metadata :: "pystr \<rightharpoonup> rat"

text \<open>
  The class \<^verbatim>\<open>DocumentAssistant\<close> of \<^verbatim>\<open>src.assistant\<close> is a parameter: its constructor
  (\<open>init\<close>, with the API key, the model name and the temperature), the two methods the
  program calls and the document mapping of its retriever (a dictionary, in insertion
  order). \<open>'b\<close> is the state of the object; a method returns the state it leaves.
  \<open>process_message\<close> also tells how long the call took on the event loop's clock.
\<close>

record 'b call_outcome =
  returned :: "exn + result"
  took :: rat
  after :: 'b

record 'b DocumentAssistant =
  init :: "pystr \<Rightarrow> pystr \<Rightarrow> rat \<Rightarrow> exn + 'b"
  start_session :: "'b \<Rightarrow> pystr \<Rightarrow> (exn + pystr) \<times> 'b"
  process_message :: "'b \<Rightarrow> pystr \<Rightarrow> 'b call_outcome"
  documents :: "'b \<Rightarrow> (pystr \<times> document) list"

section \<open>src/app\_textual.py: widgets\<close>

text \<open>
  The metadata dictionary of a \<open>MessageDisplay\<close>. The program reads it with
  \<^verbatim>\<open>metadata.get(key)\<close> and tests the result for truth, so an absent key and the
  value \<^verbatim>\<open>None\<close> are both \<open>None\<close>; \<open>no_metadata\<close> is the empty dictionary of
  \<^verbatim>\<open>metadata or {}\<close>.
\<close>

record metadata_dict =
  md_intent :: "intent_dict option"
  md_tools_used :: "pystr list option"
  md_sources :: "pystr list option"

definition no_metadata :: metadata_dict where
  "no_metadata = \<lparr>md_intent = None, md_tools_used = None, md_sources = None\<rparr>"

text \<open>
  \<open>MessageDisplay role content metadata\<close> and \<open>Static content classes id\<close>;
  \<open>InfoScreen content title\<close>.
\<close>

datatype widget =
    MessageDisplay pystr pystr metadata_dict
  | Static pystr pystr "pystr option"

datatype screen = InfoScreen pystr pystr




text \<open>\<^verbatim>\<open>InfoScreen.compose\<close>: the text of the \<open>Static\<close> inside the dialog.\<close>

fun InfoScreen_compose :: "screen \<Rightarrow> widget list" where
  "InfoScreen_compose (InfoScreen content heading) =
     [Static (asc ''[bold]'' @ heading @ asc ''[/bold]\<newline>\<newline>'' @ content) []
        (Some (asc ''info-content''))]"

section \<open>src/app\_textual.py: the application\<close>

text \<open>
  What the program does to the outside is kept as a list of events, each with the time of
  the event loop's clock at which it happened: a widget mounted in the chat container or
  removed from it, a screen pushed, the constructor of the backend called with an API
  key, \<^verbatim>\<open>start_session\<close> called with a user, \<^verbatim>\<open>process_message\<close> submitted to the
  executor with a message, and that call over (returned or raised).
\<close>

datatype event =
    Mounted widget
  | Removed widget
  | ScreenPushed screen
  | Constructed pystr
  | SessionStarted pystr
  | MessageSubmitted pystr
  | MessageCompleted

text \<open>
  The state of a \<open>DocumentAssistantApp\<close> and of what it reads and writes around it:
  the two attributes set by \<^verbatim>\<open>__init__\<close>; the widgets made by \<^verbatim>\<open>App.compose\<close> that the
  methods query (the value of \<^verbatim>\<open>#message-input\<close>, the children of \<^verbatim>\<open>#chat-container\<close>,
  the contents of \<^verbatim>\<open>#status-bar\<close> and \<^verbatim>\<open>#session-info\<close>); the screens pushed on the
  application; the process environment and the entries of the \<^verbatim>\<open>.env\<close> file; the clock
  of the event loop, \<^verbatim>\<open>datetime.now().strftime('%H:%M:%S')\<close> as a function of it, and the
  events so far. \<^verbatim>\<open>scroll_end\<close> moves the view only and is left out.
\<close>

record 'b state =
  assistant :: "'b option"
  session_id :: "pystr option"
  message_input :: pystr
  chat_container :: "widget list"
  status_bar :: pystr
  session_info :: pystr
  screen_stack :: "screen list"
  environ :: "pystr \<rightharpoonup> pystr"
  dotenv_file :: "pystr \<rightharpoonup> pystr"
  loop_time :: rat
  strftime_now :: "rat \<Rightarrow> pystr"
  trace :: "(rat \<times> event) list"

definition log_event :: "event \<Rightarrow> 'b state \<Rightarrow> 'b state" where
  "log_event e s = s\<lparr>trace := trace s @ [(loop_time s, e)]\<rparr>"

text \<open>
  \<^verbatim>\<open>await chat.mount(w)\<close> and \<^verbatim>\<open>w.remove()\<close> for a child of the chat container.
  Removing a widget that is not mounted changes nothing.
\<close>

definition mount :: "widget \<Rightarrow> 'b state \<Rightarrow> 'b state" where
  "mount w s = log_event (Mounted w) (s\<lparr>chat_container := chat_container s @ [w]\<rparr>)"

definition widget_remove :: "widget \<Rightarrow> 'b state \<Rightarrow> 'b state" where
  "widget_remove w s =
     (if w \<in> set (chat_container s)
      then log_event (Removed w) (s\<lparr>chat_container := remove1 w (chat_container s)\<rparr>)
      else s)"

definition push_screen :: "screen \<Rightarrow> 'b state \<Rightarrow> 'b state" where
  "push_screen sc s = log_event (ScreenPushed sc) (s\<lparr>screen_stack := sc # screen_stack s\<rparr>)"

text \<open>
  \<^verbatim>\<open>await asyncio.sleep(d)\<close>: the coroutine goes on when \<open>d\<close> has passed on the clock of
  the loop (at once when \<open>d \<le> 0\<close>).
\<close>

definition sleep :: "rat \<Rightarrow> 'b state \<Rightarrow> 'b state" where
  "sleep d s = (if d \<le> 0 then s else s\<lparr>loop_time := loop_time s + d\<rparr>)"

text \<open>
  \<^verbatim>\<open>load_dotenv()\<close> adds the entries of the \<^verbatim>\<open>.env\<close> file to the environment and keeps
  the variables that are already set; \<^verbatim>\<open>os.getenv\<close> reads one.
\<close>

definition load_dotenv :: "'b state \<Rightarrow> 'b state" where
  "load_dotenv s = s\<lparr>environ := dotenv_file s ++ environ s\<rparr>"

definition getenv :: "'b state \<Rightarrow> pystr \<Rightarrow> pystr option" where
  "getenv s name = environ s name"

text \<open>The state after \<^verbatim>\<open>__init__\<close> and \<^verbatim>\<open>compose\<close>, before \<^verbatim>\<open>on_mount\<close>.\<close>

definition DocumentAssistantApp ::
  "(pystr \<rightharpoonup> pystr) \<Rightarrow> (pystr \<rightharpoonup> pystr) \<Rightarrow> (rat \<Rightarrow> pystr) \<Rightarrow> 'b state" where
  "DocumentAssistantApp env dotenv clock =
     \<lparr>assistant = None, session_id = None, message_input = [], chat_container = [],
      status_bar = [], session_info = [], screen_stack = [], environ = env,
      dotenv_file = dotenv, loop_time = 0, strftime_now = clock, trace = []\<rparr>"

text \<open>The calls of the backend among the events so far.\<close>

fun is_backend_call :: "event \<Rightarrow> bool" where
  "is_backend_call (Constructed api_key) = True"
| "is_backend_call (SessionStarted user_id) = True"
| "is_backend_call (MessageSubmitted message) = True"
| "is_backend_call ev = False"

definition backend_calls :: "'b state \<Rightarrow> event list" where
  "backend_calls s = filter is_backend_call (map snd (trace s))"

subsection \<open>on\_mount\<close>

definition welcome_text :: pystr where
  "welcome_text =
     [0x1F44B] @ asc '' Welcome to the Document Assistant!\<newline>'' @
     asc ''\<newline>'' @
     asc ''I can help you with:\<newline>'' @
     [0x2022] @ asc '' Answering questions about documents\<newline>'' @
     [0x2022] @ asc '' Summarizing documents\<newline>'' @
     [0x2022] @ asc '' Performing calculations on document data\<newline>'' @
     asc ''\<newline>'' @
     asc ''Try asking: '' @ [39] @ asc ''What'' @ [39] @
     asc ''s the total amount in invoice INV-001?'' @ [39]"

text \<open>The body of the \<^verbatim>\<open>try\<close> statement of \<^verbatim>\<open>on_mount\<close>.\<close>

definition on_mount_try :: "'b DocumentAssistant \<Rightarrow> pystr \<Rightarrow> 'b state \<Rightarrow> 'b state outcome" where
  "on_mount_try DA api_key s =
     (let s1 = log_event (Constructed api_key) s in
      case init DA api_key (asc ''gpt-4o'') (1 / 10) of
        Inl e \<Rightarrow> Raised e s1
      | Inr b \<Rightarrow>
          let s2 = s1\<lparr>assistant := Some b\<rparr>;
              user_id = asc ''textual_user'';
              s3 = log_event (SessionStarted user_id) s2;
              r = start_session DA b user_id;
              s4 = s3\<lparr>assistant := Some (snd r)\<rparr>
          in (case fst r of
               Inl e \<Rightarrow> Raised e s4
             | Inr sid \<Rightarrow>
                 let s5 = s4\<lparr>session_id := Some sid\<rparr>;
                     s6 = s5\<lparr>session_info :=
                            asc ''[green]'' @ [0x2713] @ asc '' Session: '' @ take 8 sid @
                            asc ''...[/green]\<newline>'' @
                            asc ''[dim]Started: '' @ strftime_now s5 (loop_time s5) @ asc ''[/dim]''\<rparr>;
                     s7 = s6\<lparr>status_bar :=
                            asc ''[green]'' @ [0x2713] @ asc '' Ready! Type your message below.[/green]''\<rparr>;
                     welcome = MessageDisplay (asc ''assistant'') welcome_text no_metadata
                 in Normal (mount welcome s7)))"

definition on_mount :: "'b DocumentAssistant \<Rightarrow> 'b state \<Rightarrow> 'b state outcome" where
  "on_mount DA s =
     (let s1 = s\<lparr>status_bar := asc ''[yellow]'' @ [0x23F3] @ asc '' Initializing assistant...[/yellow]''\<rparr>;
          s2 = load_dotenv s1;
          api_key = getenv s2 (asc ''OPENAI_API_KEY'');
          missing = s2\<lparr>status_bar :=
                      asc ''[red]'' @ [0x274C] @
                      asc '' Error: OPENAI_API_KEY not found. Please create a .env file.[/red]''\<rparr>
      in case api_key of
           None \<Rightarrow> Normal missing
         | Some k \<Rightarrow>
             if k = [] then Normal missing
             else
               (case on_mount_try DA k s2 of
                  Normal s' \<Rightarrow> Normal s'
                | Raised e s' \<Rightarrow>
                    Normal (s'\<lparr>status_bar :=
                              asc ''[red]'' @ [0x274C] @ asc '' Error: '' @ str_exn e @ asc ''[/red]''\<rparr>)))"

subsection \<open>send\_message\<close>

definition thinking_msg :: widget where
  "thinking_msg =
     Static (asc ''[bold green]'' @ [0x1F916] @ asc '' Assistant:[/bold green]\<newline>[dim italic]'' @
             [0x1F4AD] @ asc '' Thinking...[/dim italic]'')
       (asc ''assistant-message thinking'') (Some (asc ''thinking-indicator''))"

text \<open>\<^verbatim>\<open>result["response"] or "No response generated."\<close>\<close>

fun response_or :: "pystr option \<Rightarrow> pystr \<Rightarrow> pystr" where
  "response_or None dflt = dflt"
| "response_or (Some r) dflt = (if r = [] then dflt else r)"

text \<open>\<^verbatim>\<open>result.get(key, default)\<close>\<close>

fun get_default :: "'a option \<Rightarrow> 'a \<Rightarrow> 'a" where
  "get_default None dflt = dflt"
| "get_default (Some v) dflt = v"

text \<open>
  What follows \<^verbatim>\<open>thinking_msg.remove()\<close> in the \<^verbatim>\<open>try\<close> statement: the branch on
  \<^verbatim>\<open>result["success"]\<close>.
\<close>

definition display_result :: "result \<Rightarrow> 'b state \<Rightarrow> 'b state outcome" where
  "display_result res s =
     (case success res of
        None \<Rightarrow> Raised (KeyError (asc ''success'')) s
      | Some True \<Rightarrow>
          (case response res of
             None \<Rightarrow> Raised (KeyError (asc ''response'')) s
           | Some r \<Rightarrow>
               let assistant_msg =
                     MessageDisplay (asc ''assistant'')
                       (response_or r (asc ''No response generated.''))
                       \<lparr>md_intent = intent res,
                        md_tools_used = Some (get_default (tools_used res) []),
                        md_sources = Some (get_default (sources res) [])\<rparr>;
                   s1 = mount assistant_msg s
               in Normal (s1\<lparr>status_bar :=
                            asc ''[green]'' @ [0x2713] @ asc '' Response received[/green]''\<rparr>))
      | Some False \<Rightarrow>
          let error_msg =
                MessageDisplay (asc ''assistant'')
                  ([0x274C] @ asc '' Error: '' @ get_default (error res) (asc ''Unknown error''))
                  no_metadata;
              s1 = mount error_msg s
          in Normal (s1\<lparr>status_bar := asc ''[red]'' @ [0x274C] @ asc '' Error occurred[/red]''\<rparr>))"

text \<open>
  The body of the \<^verbatim>\<open>try\<close> statement of \<^verbatim>\<open>send_message\<close>. The call runs in a worker
  thread while the coroutine waits; when it is over the clock of the loop has advanced by
  the time the call took.
\<close>

definition send_message_try ::
  "'b DocumentAssistant \<Rightarrow> pystr \<Rightarrow> rat \<Rightarrow> 'b state \<Rightarrow> 'b state outcome" where
  "send_message_try DA user_message start_time s =
     (case assistant s of
        None \<Rightarrow> Raised (AttributeError_NoneType (asc ''process_message'')) s
      | Some b \<Rightarrow>
          let s1 = log_event (MessageSubmitted user_message) s;
              out = process_message DA b user_message;
              s2 = log_event MessageCompleted
                     (s1\<lparr>assistant := Some (after out), loop_time := loop_time s1 + took out\<rparr>)
          in (case returned out of
               Inl e \<Rightarrow> Raised e s2
             | Inr res \<Rightarrow>
                 let elapsed = loop_time s2 - start_time;
                     s3 = (if elapsed < 1 / 2 then sleep (1 / 2 - elapsed) s2 else s2);
                     s4 = widget_remove thinking_msg s3
                 in display_result res s4))"

definition send_message :: "'b DocumentAssistant \<Rightarrow> 'b state \<Rightarrow> 'b state outcome" where
  "send_message DA s =
     (let user_message = strip (message_input s) in
      if user_message = [] then Normal s
      else
        let s1 = s\<lparr>message_input := []\<rparr>;
            user_msg = MessageDisplay (asc ''user'') user_message no_metadata;
            s2 = mount user_msg s1;
            s3 = mount thinking_msg s2;
            s4 = s3\<lparr>status_bar :=
                     asc ''[yellow]'' @ [0x23F3] @ asc '' Processing your request...[/yellow]''\<rparr>;
            s5 = sleep (1 / 10) s4;
            start_time = loop_time s5
        in case send_message_try DA user_message start_time s5 of
             Normal s' \<Rightarrow> Normal s'
           | Raised e s' \<Rightarrow>
               let s6 = widget_remove thinking_msg s';
                   error_msg =
                     MessageDisplay (asc ''assistant'')
                       ([0x274C] @ asc '' Unexpected error: '' @ str_exn e) no_metadata;
                   s7 = mount error_msg s6
               in Normal (s7\<lparr>status_bar :=
                            asc ''[red]'' @ [0x274C] @ asc '' Error: '' @ str_exn e @ asc ''[/red]''\<rparr>))"

text \<open>The two handlers that submit: the send button and the Enter key of the input.\<close>

definition on_button_pressed ::
  "'b DocumentAssistant \<Rightarrow> pystr option \<Rightarrow> 'b state \<Rightarrow> 'b state outcome" where
  "on_button_pressed DA button_id s =
     (if button_id = Some (asc ''send-button'') then send_message DA s else Normal s)"

definition on_input_submitted ::
  "'b DocumentAssistant \<Rightarrow> pystr option \<Rightarrow> 'b state \<Rightarrow> 'b state outcome" where
  "on_input_submitted DA input_id s =
     (if input_id = Some (asc ''message-input'') then send_message DA s else Normal s)"

subsection \<open>The format specification ,.2f\<close>

text \<open>
  \<^verbatim>\<open>format(x, ",.2f")\<close> for a finite number \<open>x\<close>: the exact value is rounded to two
  decimals, a tie going to the even neighbour; the digits before the point are grouped by
  three with commas; a negative number keeps its sign.
\<close>

definition round_half_even :: "rat \<Rightarrow> int" where
  "round_half_even x =
     (let f = \<lfloor>x\<rfloor>; r = x - of_int f
      in if r < 1 / 2 then f else if 1 / 2 < r then f + 1 else if even f then f else f + 1)"

fun digits :: "nat \<Rightarrow> pystr" where
  "digits n = (if n < 10 then [48 + n] else digits (n div 10) @ [48 + n mod 10])"

declare digits.simps [simp del]

text \<open>Commas between groups of three, on the digits in reverse order.\<close>

fun group3 :: "pystr \<Rightarrow> pystr" where
  "group3 (a # b # c # d # ds) = a # b # c # 44 # group3 (d # ds)"
| "group3 ds = ds"

definition format_comma_2f :: "rat \<Rightarrow> pystr" where
  "format_comma_2f x =
     (let n = nat (round_half_even (\<bar>x\<bar> * 100));
          whole = n div 100;
          cents = n mod 100
      in (if x < 0 then asc ''-'' else []) @ rev (group3 (rev (digits whole))) @
         asc ''.'' @ [48 + cents div 10, 48 + cents mod 10])"

subsection \<open>The actions\<close>

text \<open>
  The loop of \<^verbatim>\<open>action_show_docs\<close> over \<^verbatim>\<open>documents.items()\<close>; \<open>docs_text\<close> is
  the text so far.
\<close>

fun show_docs_loop :: "pystr \<Rightarrow> (pystr \<times> document) list \<Rightarrow> pystr" where
  "show_docs_loop docs_text [] = docs_text"
| "show_docs_loop docs_text ((doc_id, doc) # items) =
     (let docs_text1 =
            docs_text @ [0x2022] @ asc '' '' @ doc_id @ asc '': '' @ title doc @ asc '' ('' @
            doc_type doc @ asc '')\<newline>'';
          docs_text2 =
            (case metadata doc (asc ''total'') of
               None \<Rightarrow> docs_text1
             | Some total_value \<Rightarrow>
                 docs_text1 @ asc ''  Amount: $'' @ format_comma_2f total_value @ asc ''\<newline>'')
      in show_docs_loop docs_text2 items)"

definition action_show_docs :: "'b DocumentAssistant \<Rightarrow> 'b state \<Rightarrow> 'b state outcome" where
  "action_show_docs DA s =
     (case assistant s of
        None \<Rightarrow> Normal s
      | Some b \<Rightarrow>
          let docs_text =
                show_docs_loop ([0x1F4DA] @ asc '' Available Documents:\<newline>\<newline>'')
                  (documents DA b)
          in Normal (push_screen (InfoScreen docs_text (asc ''Documents'')) s))"



definition action_new_session :: "'b DocumentAssistant \<Rightarrow> 'b state \<Rightarrow> 'b state outcome" where
  "action_new_session DA s =
     (case assistant s of
        None \<Rightarrow> Normal s
      | Some b \<Rightarrow>
          let s1 = log_event (SessionStarted (asc ''textual_user'')) s;
              r = start_session DA b (asc ''textual_user'');
              s2 = s1\<lparr>assistant := Some (snd r)\<rparr>
          in (case fst r of
               Inl e \<Rightarrow> Raised e s2
             | Inr sid \<Rightarrow>
                 let s3 = s2\<lparr>session_id := Some sid\<rparr>;
                     s4 = s3\<lparr>session_info :=
                            asc ''[green]'' @ [0x2713] @ asc '' New Session: '' @ take 8 sid @
                            asc ''...[/green]\<newline>'' @
                            asc ''[dim]Started: '' @ strftime_now s3 (loop_time s3) @ asc ''[/dim]''\<rparr>
                 in Normal (s4\<lparr>status_bar :=
                              asc ''[green]'' @ [0x2713] @ asc '' New session started[/green]''\<rparr>)))"

section \<open>The listing as the specification describes it\<close>


section \<open>Example inputs\<close>

text \<open>
  A backend for the examples: its constructor and \<^verbatim>\<open>start_session\<close> succeed,
  \<^verbatim>\<open>process_message\<close> gives the same answer after the same time for every message, and
  the retriever holds the given documents.
\<close>

definition stub_assistant ::
  "(exn + result) \<Rightarrow> rat \<Rightarrow> (pystr \<times> document) list \<Rightarrow> unit DocumentAssistant" where
  "stub_assistant answer duration docs =
     \<lparr>init = (\<lambda>api_key model_name temperature. Inr ()),
      start_session = (\<lambda>b user_id. (Inr (asc ''3f2a9c1e-77d0''), b)),
      process_message = (\<lambda>b text. \<lparr>returned = answer, took = duration, after = b\<rparr>),
      documents = (\<lambda>b. docs)\<rparr>"

text \<open>
  The application before \<^verbatim>\<open>on_mount\<close> with no API key anywhere, and the application
  after a successful start with a text typed into the input.
\<close>

definition fresh_app :: "unit state" where
  "fresh_app = DocumentAssistantApp Map.empty Map.empty (\<lambda>t. asc ''12:00:00'')"

definition ready_app :: "pystr \<Rightarrow> unit state" where
  "ready_app text =
     fresh_app\<lparr>assistant := Some (), session_id := Some (asc ''3f2a9c1e-77d0''),
               message_input := text\<rparr>"

text \<open>Results of the backend: a success with a response and a source, and a failure.\<close>

definition invoice_answer :: result where
  "invoice_answer =
     \<lparr>success = Some True,
      response = Some (Some (asc ''INV-001 total is $1,200.00'')),
      intent = None, tools_used = None, sources = Some [asc ''INV-001''], error = None\<rparr>"



section \<open>Lemmas on the state\<close>

text \<open>Each operation on the widgets, field by field.\<close>

lemma log_event_fields:
  "assistant (log_event ev s) = assistant s"
  "session_id (log_event ev s) = session_id s"
  "message_input (log_event ev s) = message_input s"
  "chat_container (log_event ev s) = chat_container s"
  "status_bar (log_event ev s) = status_bar s"
  "session_info (log_event ev s) = session_info s"
  "screen_stack (log_event ev s) = screen_stack s"
  "environ (log_event ev s) = environ s"
  "dotenv_file (log_event ev s) = dotenv_file s"
  "loop_time (log_event ev s) = loop_time s"
  "strftime_now (log_event ev s) = strftime_now s"
  "trace (log_event ev s) = trace s @ [(loop_time s, ev)]"
  by (simp_all add: log_event_def)

lemma mount_fields:
  "assistant (mount w s) = assistant s"
  "session_id (mount w s) = session_id s"
  "message_input (mount w s) = message_input s"
  "chat_container (mount w s) = chat_container s @ [w]"
  "status_bar (mount w s) = status_bar s"
  "session_info (mount w s) = session_info s"
  "screen_stack (mount w s) = screen_stack s"
  "environ (mount w s) = environ s"
  "dotenv_file (mount w s) = dotenv_file s"
  "loop_time (mount w s) = loop_time s"
  "strftime_now (mount w s) = strftime_now s"
  "trace (mount w s) = trace s @ [(loop_time s, Mounted w)]"
  by (simp_all add: mount_def log_event_def)

lemma widget_remove_fields:
  "assistant (widget_remove w s) = assistant s"
  "session_id (widget_remove w s) = session_id s"
  "message_input (widget_remove w s) = message_input s"
  "chat_container (widget_remove w s) = remove1 w (chat_container s)"
  "status_bar (widget_remove w s) = status_bar s"
  "session_info (widget_remove w s) = session_info s"
  "screen_stack (widget_remove w s) = screen_stack s"
  "environ (widget_remove w s) = environ s"
  "dotenv_file (widget_remove w s) = dotenv_file s"
  "loop_time (widget_remove w s) = loop_time s"
  "strftime_now (widget_remove w s) = strftime_now s"
  "trace (widget_remove w s) =
     (if w \<in> set (chat_container s) then trace s @ [(loop_time s, Removed w)] else trace s)"
  by (simp_all add: widget_remove_def log_event_def remove1_idem)

lemma sleep_fields:
  "assistant (sleep d s) = assistant s"
  "session_id (sleep d s) = session_id s"
  "message_input (sleep d s) = message_input s"
  "chat_container (sleep d s) = chat_container s"
  "status_bar (sleep d s) = status_bar s"
  "session_info (sleep d s) = session_info s"
  "screen_stack (sleep d s) = screen_stack s"
  "environ (sleep d s) = environ s"
  "dotenv_file (sleep d s) = dotenv_file s"
  "loop_time (sleep d s) = (if d \<le> 0 then loop_time s else loop_time s + d)"
  "strftime_now (sleep d s) = strftime_now s"
  "trace (sleep d s) = trace s"
  by (simp_all add: sleep_def)

lemma push_screen_fields:
  "assistant (push_screen sc s) = assistant s"
  "session_id (push_screen sc s) = session_id s"
  "message_input (push_screen sc s) = message_input s"
  "chat_container (push_screen sc s) = chat_container s"
  "status_bar (push_screen sc s) = status_bar s"
  "session_info (push_screen sc s) = session_info s"
  "screen_stack (push_screen sc s) = sc # screen_stack s"
  "environ (push_screen sc s) = environ s"
  "dotenv_file (push_screen sc s) = dotenv_file s"
  "loop_time (push_screen sc s) = loop_time s"
  "strftime_now (push_screen sc s) = strftime_now s"
  "trace (push_screen sc s) = trace s @ [(loop_time s, ScreenPushed sc)]"
  by (simp_all add: push_screen_def log_event_def)

lemmas ui_fields =
  log_event_fields mount_fields widget_remove_fields sleep_fields push_screen_fields

lemmas send_message_defs = send_message_def send_message_try_def display_result_def

lemmas example_defs = stub_assistant_def fresh_app_def ready_app_def DocumentAssistantApp_def

lemma remove1_append_new: "w \<notin> set xs \<Longrightarrow> remove1 w (xs @ [u, w]) = xs @ [u]"
  by (induction xs) auto

lemma not_the_indicator: "MessageDisplay role content md \<noteq> thinking_msg"
  by (simp add: thinking_msg_def)

subsection \<open>Stripping\<close>

lemma all_dropWhile_iff: "(\<forall>x\<in>set (dropWhile P xs). P x) \<longleftrightarrow> (\<forall>x\<in>set xs. P x)"
  by (induction xs) auto

lemma strip_eq_Nil_iff: "strip v = [] \<longleftrightarrow> (\<forall>c\<in>set v. isspace c)"
  by (simp add: strip_def all_dropWhile_iff)



subsection \<open>Rendering of an assistant message\<close>





subsection \<open>send\_message always returns\<close>



text \<open>
  A submission that starts with no thinking indicator in the chat ends with none: calls of
  \<open>send_message\<close> that run one after the other never see the indicator of an earlier one.
\<close>

lemma send_message_removes_indicator:
  assumes "thinking_msg \<notin> set (chat_container s)"
  shows "thinking_msg \<notin> set (chat_container (state_of (send_message DA s)))"
  using assms not_the_indicator not_the_indicator [symmetric]
  by (simp add: send_message_defs ui_fields Let_def remove1_append_new remove1_idem
        split: option.split sum.split bool.split)

text \<open>Without a backend object, a submission calls no backend.\<close>

lemma send_message_without_backend:
  assumes "assistant s = None"
  shows "backend_calls (state_of (send_message DA s)) = backend_calls s"
  using assms
  by (simp add: send_message_defs ui_fields backend_calls_def Let_def)

section \<open>Blank input\<close>

text \<open>
  C5. When the text of the input is empty or consists of whitespace only, \<open>send_message\<close>
  returns the state it was given: no user message and no thinking indicator is mounted,
  the backend is not called, the status bar is not touched and nothing is raised. The
  same holds for the two handlers that submit (the Enter key and the send button).
\<close>

theorem send_message_blank_noop:
  assumes "\<forall>c\<in>set (message_input s). isspace c"
  shows "send_message DA s = Normal s
     \<and> on_input_submitted DA (Some (asc ''message-input'')) s = Normal s
     \<and> on_button_pressed DA (Some (asc ''send-button'')) s = Normal s"
  using assms
  by (simp add: send_message_def on_input_submitted_def on_button_pressed_def strip_eq_Nil_iff)

theorem send_message_blank_noop_witness:
  "send_message (stub_assistant (Inr invoice_answer) 2 []) (ready_app (asc '' \<newline>  '')) =
     Normal (ready_app (asc '' \<newline>  ''))
   \<and> send_message (stub_assistant (Inr invoice_answer) 2 []) (ready_app []) = Normal (ready_app [])"
proof -
  have 1: "\<forall>c\<in>set (message_input (ready_app (asc '' \<newline>  ''))). isspace c"
    by (simp add: example_defs isspace_def asc_def)
  have 2: "\<forall>c\<in>set (message_input (ready_app [])). isspace c"
    by (simp add: example_defs)
  from send_message_blank_noop [OF 1] send_message_blank_noop [OF 2]
  show ?thesis
    by simp
qed

section \<open>Startup without the credential\<close>

text \<open>
  C6. When \<^verbatim>\<open>OPENAI_API_KEY\<close> is neither in the process environment nor in the
  \<^verbatim>\<open>.env\<close> file (or is the empty string), \<open>on_mount\<close> returns normally with the
  error text in the status bar; the backend object is not constructed (the attribute
  \<^verbatim>\<open>assistant\<close> keeps its value, \<^verbatim>\<open>None\<close> after \<^verbatim>\<open>__init__\<close>), no session is started,
  nothing is mounted and no call of the backend is made. In the state it leaves after
  \<^verbatim>\<open>__init__\<close>, later submissions and actions make no backend call either.
\<close>

theorem on_mount_missing_credential:
  assumes "(dotenv_file s ++ environ s) (asc ''OPENAI_API_KEY'') \<in> {None, Some []}"
  shows "\<exists>s'. on_mount DA s = Normal s' \<and>
     status_bar s' =
       asc ''[red]'' @ [0x274C] @
       asc '' Error: OPENAI_API_KEY not found. Please create a .env file.[/red]'' \<and>
     assistant s' = assistant s \<and> session_id s' = session_id s \<and>
     chat_container s' = chat_container s \<and> trace s' = trace s \<and>
     backend_calls s' = backend_calls s \<and>
     (assistant s = None \<longrightarrow>
        action_show_docs DA s' = Normal s' \<and> action_new_session DA s' = Normal s' \<and>
        (\<forall>v. backend_calls (state_of (send_message DA (s'\<lparr>message_input := v\<rparr>))) =
             backend_calls s))"
proof -
  define s' where "s' =
     s\<lparr>status_bar := asc ''[red]'' @ [0x274C] @
                      asc '' Error: OPENAI_API_KEY not found. Please create a .env file.[/red]'',
       environ := dotenv_file s ++ environ s\<rparr>"
  have run: "on_mount DA s = Normal s'"
    using assms
    by (auto simp add: on_mount_def load_dotenv_def getenv_def Let_def s'_def
          split: option.splits)
  have later: "backend_calls (state_of (send_message DA (s'\<lparr>message_input := v\<rparr>))) =
      backend_calls s" if "assistant s = None" for v
    using send_message_without_backend [of "s'\<lparr>message_input := v\<rparr>" DA] that
    by (simp add: s'_def backend_calls_def)
  have actions: "action_show_docs DA s' = Normal s' \<and> action_new_session DA s' = Normal s'"
    if "assistant s = None"
    using that by (simp add: action_show_docs_def action_new_session_def s'_def)
  show ?thesis
    using run later actions by (auto simp add: s'_def backend_calls_def)
qed

theorem on_mount_missing_credential_witness:
  "on_mount (stub_assistant (Inr invoice_answer) 2 []) fresh_app =
     Normal (state_of (on_mount (stub_assistant (Inr invoice_answer) 2 []) fresh_app)) \<and>
   status_bar (state_of (on_mount (stub_assistant (Inr invoice_answer) 2 []) fresh_app)) =
     asc ''[red]'' @ [0x274C] @
     asc '' Error: OPENAI_API_KEY not found. Please create a .env file.[/red]'' \<and>
   assistant (state_of (on_mount (stub_assistant (Inr invoice_answer) 2 []) fresh_app)) = None \<and>
   session_id (state_of (on_mount (stub_assistant (Inr invoice_answer) 2 []) fresh_app)) = None \<and>
   trace (state_of (on_mount (stub_assistant (Inr invoice_answer) 2 []) fresh_app)) = []"
proof -
  have 1: "(dotenv_file fresh_app ++ environ fresh_app) (asc ''OPENAI_API_KEY'') \<in>
      {None, Some []}"
    by (simp add: example_defs)
  have 2: "assistant fresh_app = None" "session_id fresh_app = None" "trace fresh_app = []"
    by (simp_all add: example_defs)
  from on_mount_missing_credential [OF 1, of "stub_assistant (Inr invoice_answer) 2 []"]
  obtain s' where "on_mount (stub_assistant (Inr invoice_answer) 2 []) fresh_app = Normal s'"
    and "status_bar s' =
       asc ''[red]'' @ [0x274C] @
       asc '' Error: OPENAI_API_KEY not found. Please create a .env file.[/red]''"
    and "assistant s' = assistant fresh_app" and "session_id s' = session_id fresh_app"
    and "trace s' = trace fresh_app"
    by blast
  then show ?thesis
    by (simp add: 2)
qed

section \<open>A backend call that raises\<close>



section \<open>A failure reported by the backend\<close>



section \<open>A successful result\<close>



section \<open>How long the thinking indicator stays\<close>




section \<open>The document listing\<close>

subsection \<open>The amount\<close>













section \<open>The auxiliary actions\<close>




section \<open>Properties of the prompt selection\<close>

lemma asc_intent_names:
  "asc ''qa'' \<noteq> asc ''summarization''"
  "asc ''qa'' \<noteq> asc ''calculation''"
  "asc ''summarization'' \<noteq> asc ''calculation''"
  "asc ''unknown'' \<noteq> asc ''qa''"
  "asc ''unknown'' \<noteq> asc ''summarization''"
  "asc ''unknown'' \<noteq> asc ''calculation''"
  by (simp_all add: asc_def)

lemma system_prompts_distinct:
  "QA_SYSTEM_PROMPT \<noteq> SUMMARIZATION_SYSTEM_PROMPT"
  "QA_SYSTEM_PROMPT \<noteq> CALCULATION_SYSTEM_PROMPT"
  "SUMMARIZATION_SYSTEM_PROMPT \<noteq> CALCULATION_SYSTEM_PROMPT"
  by (simp_all add: QA_SYSTEM_PROMPT_def SUMMARIZATION_SYSTEM_PROMPT_def
        CALCULATION_SYSTEM_PROMPT_def asc_def)

text \<open>
  C10. \<open>get_chat_prompt_template\<close> is a total function of the intent-type string. At
  \<^verbatim>\<open>"qa"\<close>, \<^verbatim>\<open>"summarization"\<close> and \<^verbatim>\<open>"calculation"\<close> it selects the system prompt of
  that name (three different texts); at every other string, \<^verbatim>\<open>"unknown"\<close> included, it
  falls back to the Q&A system prompt. Every template it returns is the system prompt,
  then the placeholder for \<^verbatim>\<open>chat_history\<close>, then the human message \<^verbatim>\<open>{input}\<close>.
\<close>

theorem get_chat_prompt_template_selects:
  "get_chat_prompt_template (asc ''qa'') =
     [SystemMessagePromptTemplate QA_SYSTEM_PROMPT,
      MessagesPlaceholder (asc ''chat_history''), HumanMessagePromptTemplate (asc ''{input}'')]
   \<and> get_chat_prompt_template (asc ''summarization'') =
     [SystemMessagePromptTemplate SUMMARIZATION_SYSTEM_PROMPT,
      MessagesPlaceholder (asc ''chat_history''), HumanMessagePromptTemplate (asc ''{input}'')]
   \<and> get_chat_prompt_template (asc ''calculation'') =
     [SystemMessagePromptTemplate CALCULATION_SYSTEM_PROMPT,
      MessagesPlaceholder (asc ''chat_history''), HumanMessagePromptTemplate (asc ''{input}'')]
   \<and> (intent_type \<noteq> asc ''qa'' \<and> intent_type \<noteq> asc ''summarization'' \<and>
        intent_type \<noteq> asc ''calculation'' \<longrightarrow>
        get_chat_prompt_template intent_type =
          [SystemMessagePromptTemplate QA_SYSTEM_PROMPT,
           MessagesPlaceholder (asc ''chat_history''), HumanMessagePromptTemplate (asc ''{input}'')])
   \<and> (\<exists>system_prompt \<in> {QA_SYSTEM_PROMPT, SUMMARIZATION_SYSTEM_PROMPT, CALCULATION_SYSTEM_PROMPT}.
        get_chat_prompt_template intent_type =
          [SystemMessagePromptTemplate system_prompt,
           MessagesPlaceholder (asc ''chat_history''), HumanMessagePromptTemplate (asc ''{input}'')])
   \<and> QA_SYSTEM_PROMPT \<noteq> SUMMARIZATION_SYSTEM_PROMPT
   \<and> QA_SYSTEM_PROMPT \<noteq> CALCULATION_SYSTEM_PROMPT
   \<and> SUMMARIZATION_SYSTEM_PROMPT \<noteq> CALCULATION_SYSTEM_PROMPT"
  using asc_intent_names system_prompts_distinct
  by (simp add: get_chat_prompt_template_def)

theorem get_chat_prompt_template_selects_witness:
  "asc ''unknown'' \<noteq> asc ''qa'' \<and> asc ''unknown'' \<noteq> asc ''summarization'' \<and>
   asc ''unknown'' \<noteq> asc ''calculation'' \<and>
   get_chat_prompt_template (asc ''unknown'') =
     [SystemMessagePromptTemplate QA_SYSTEM_PROMPT,
      MessagesPlaceholder (asc ''chat_history''), HumanMessagePromptTemplate (asc ''{input}'')]"
  using get_chat_prompt_template_selects [of "asc ''unknown''"] asc_intent_names
  by simp

end
